theory Spec2Isabelle
  imports Complex_Main
begin

section \<open>The timer board of src/App.tsx\<close>

text \<open>
  The board keeps an ordered list of countdown timers, decrements the running ones once a
  second, announces milestones, and restores the list from local storage. The embedding
  follows src/App.tsx (its first, current version; the older versions in the sources have the
  same tick, detector, formatter and buttons).

  JavaScript numbers are modelled as \<^typ>\<open>real\<close>: the rounding of IEEE doubles and the
  overflow to the infinities are outside the model. NaN, which the loader computes from
  stored data that holds no number at all, is a value of the type \<open>number\<close> of the loader's
  model. Strings are byte lists; the one non-ASCII literal of the modelled code (the default
  icon) is given by its UTF-8 bytes.
\<close>

subsection \<open>Types\<close>

datatype TimerStatus = RUNNING | PAUSED | FINISHED

text \<open>A number that may be NaN.\<close>

datatype number = NaN | Num real

text \<open>
  The type \<open>GameTimer\<close>. The field \<open>id\<close> is called \<open>id'\<close> here, since \<open>id\<close> is
  the identity function of HOL. The optional fields \<open>icon?\<close> and \<open>pinned?\<close> are options.
  The type of the two fields of seconds is a parameter: the tick, the detector and the
  buttons are modelled on timers whose seconds are real numbers, the loader on timers whose
  seconds are of type \<open>number\<close>, since it can restore a timer with NaN seconds.
\<close>

record 'n GameTimer =
  id' :: string
  game :: string
  icon :: "string option"
  durationSec :: 'n
  remainingSec :: 'n
  status :: TimerStatus
  announceAt :: "real list"
  pinned :: "bool option"

subsection \<open>Utilities: \<open>pad\<close> and \<open>formatHHMMSS\<close>\<close>

text \<open>\<open>String(n)\<close> for a natural number: its decimal digits, most significant first.\<close>

definition digit :: "nat \<Rightarrow> char" where
  "digit d =
     (if d = 0 then CHR ''0'' else if d = 1 then CHR ''1'' else if d = 2 then CHR ''2''
      else if d = 3 then CHR ''3'' else if d = 4 then CHR ''4'' else if d = 5 then CHR ''5''
      else if d = 6 then CHR ''6'' else if d = 7 then CHR ''7'' else if d = 8 then CHR ''8''
      else CHR ''9'')"

fun String_nat :: "nat \<Rightarrow> string" where
  "String_nat n = (if n < 10 then [digit n] else String_nat (n div 10) @ [digit (n mod 10)])"

declare String_nat.simps [simp del]

text \<open>\<open>s.padStart(2, "0")\<close>: zeros in front up to length 2, nothing cut off.\<close>

definition padStart2 :: "string \<Rightarrow> string" where
  "padStart2 s = replicate (2 - length s) (CHR ''0'') @ s"

definition pad :: "nat \<Rightarrow> string" where
  "pad n = padStart2 (String_nat n)"

text \<open>
  \<open>formatHHMMSS\<close>: \<open>s = Math.max(0, Math.floor(totalSeconds))\<close> is a natural number, and so
  are the three fields computed from it, which is all that \<open>pad\<close> is ever applied to.
\<close>

definition formatHHMMSS :: "real \<Rightarrow> string" where
  "formatHHMMSS totalSeconds =
     (let s = nat (max 0 \<lfloor>totalSeconds\<rfloor>);
          h = s div 3600;
          m = (s mod 3600) div 60;
          sec = s mod 60
      in if h > 0 then pad h @ '':'' @ pad m @ '':'' @ pad sec
         else pad m @ '':'' @ pad sec)"

subsection \<open>The tick\<close>

definition tickRateMs :: real where
  "tickRateMs = 1000"

text \<open>The body of the \<open>prev.map\<close> of the interval callback.\<close>

definition tickTimer :: "real GameTimer \<Rightarrow> real GameTimer" where
  "tickTimer tm =
     (if status tm \<noteq> RUNNING then tm
      else let next = max 0 (remainingSec tm - tickRateMs / 1000)
           in tm\<lparr>remainingSec := next,
                 status := (if next \<le> 0 then FINISHED else status tm)\<rparr>)"

definition tick :: "real GameTimer list \<Rightarrow> real GameTimer list" where
  "tick prev = map tickTimer prev"

subsection \<open>The milestone detector\<close>

text \<open>
  \<open>lastSeen\<close> is the \<open>Record<string, number>\<close> held in the ref, a plain object that
  starts as \<open>{}\<close>. The model keeps the numbers stored in it, by key. The value \<open>-1\<close>
  marks a timer whose end has been announced.

  Reading a key gives the number stored under it, and otherwise something that is no number
  (\<open>undefined\<close>, or what the key inherits from \<open>Object.prototype\<close>) and so differs from
  every number under \<open>!==\<close>: \<open>None\<close>. The key \<open>__proto__\<close> is the accessor of the
  prototype: an assignment of a number to it stores nothing, and reading it gives the
  prototype object, whatever was assigned before.

  What the effect does at a milestone (play a clip or queue a spoken phrase, and show the
  overlay unless the board is in display mode) is recorded as a notification that names
  the timer by its id; a threshold notification carries \<open>remaining\<close>.
\<close>

type_synonym lastSeen = "string \<Rightarrow> real option"

datatype notification = Finished string | Threshold string real

fun timerOf :: "notification \<Rightarrow> string" where
  "timerOf (Finished i) = i"
| "timerOf (Threshold i r) = i"

definition readSeen :: "lastSeen \<Rightarrow> string \<Rightarrow> real option" where
  "readSeen seen k = (if k = ''__proto__'' then None else seen k)"

definition writeSeen :: "lastSeen \<Rightarrow> string \<Rightarrow> real \<Rightarrow> lastSeen" where
  "writeSeen seen k v = (if k = ''__proto__'' then seen else seen(k \<mapsto> v))"

definition Math_ceil :: "real \<Rightarrow> real" where
  "Math_ceil x = of_int \<lceil>x\<rceil>"

text \<open>The body of \<open>timers.forEach\<close>: the notifications of one timer and the new \<open>lastSeen\<close>.\<close>

definition detectTimer :: "real GameTimer \<Rightarrow> lastSeen \<Rightarrow> notification list \<times> lastSeen" where
  "detectTimer tm seen =
     (if status tm = FINISHED then
        (if readSeen seen (id' tm) \<noteq> Some (- 1)
         then ([Finished (id' tm)], writeSeen seen (id' tm) (- 1))
         else ([], seen))
      else
        let prev = readSeen seen (id' tm);
            remaining = Math_ceil (remainingSec tm)
        in ((if remaining \<in> set (announceAt tm) \<and> prev \<noteq> Some remaining
             then [Threshold (id' tm) remaining] else []),
            writeSeen seen (id' tm) remaining))"

fun detector :: "real GameTimer list \<Rightarrow> lastSeen \<Rightarrow> notification list \<times> lastSeen" where
  "detector [] seen = ([], seen)"
| "detector (tm # tms) seen =
     (let (ns, seen') = detectTimer tm seen;
          (ms, seen'') = detector tms seen'
      in (ns @ ms, seen''))"

text \<open>
  The effect runs after every change of \<open>timers\<close>, and each tick installs a new list.
  \<open>passes n\<close> is one detector pass followed by \<open>n\<close> rounds of a tick and a detector
  pass; it returns all notifications in the order they are emitted.
\<close>

fun passes :: "nat \<Rightarrow> real GameTimer list \<Rightarrow> lastSeen \<Rightarrow> notification list" where
  "passes 0 tms seen = fst (detector tms seen)"
| "passes (Suc n) tms seen =
     (let (ns, seen') = detector tms seen in ns @ passes n (tick tms) seen')"

subsection \<open>Updates and the buttons of a timer card\<close>

text \<open>
  A \<open>Partial<GameTimer>\<close> has each field or not; \<open>{ ...x, ...patch }\<close> takes the fields
  the patch has and keeps the others.
\<close>

record Patch =
  p_id :: "string option"
  p_game :: "string option"
  p_icon :: "string option"
  p_durationSec :: "real option"
  p_remainingSec :: "real option"
  p_status :: "TimerStatus option"
  p_announceAt :: "real list option"
  p_pinned :: "bool option"

definition noPatch :: Patch where
  "noPatch = \<lparr>p_id = None, p_game = None, p_icon = None, p_durationSec = None,
     p_remainingSec = None, p_status = None, p_announceAt = None, p_pinned = None\<rparr>"

definition merge :: "real GameTimer \<Rightarrow> Patch \<Rightarrow> real GameTimer" where
  "merge x p =
     \<lparr>id' = (case p_id p of None \<Rightarrow> id' x | Some v \<Rightarrow> v),
      game = (case p_game p of None \<Rightarrow> game x | Some v \<Rightarrow> v),
      icon = (case p_icon p of None \<Rightarrow> icon x | Some v \<Rightarrow> Some v),
      durationSec = (case p_durationSec p of None \<Rightarrow> durationSec x | Some v \<Rightarrow> v),
      remainingSec = (case p_remainingSec p of None \<Rightarrow> remainingSec x | Some v \<Rightarrow> v),
      status = (case p_status p of None \<Rightarrow> status x | Some v \<Rightarrow> v),
      announceAt = (case p_announceAt p of None \<Rightarrow> announceAt x | Some v \<Rightarrow> v),
      pinned = (case p_pinned p of None \<Rightarrow> pinned x | Some v \<Rightarrow> Some v)\<rparr>"

text \<open>
  \<open>addTimer\<close>: the optional preset with its optional fields, and the identifier
  \<open>crypto.randomUUID()\<close> returns.
\<close>

record Preset =
  pr_game :: "string option"
  pr_icon :: "string option"
  pr_minutes :: "real option"

definition addTimer :: "string \<Rightarrow> Preset option \<Rightarrow> real GameTimer list \<Rightarrow> real GameTimer list" where
  "addTimer uuid preset t =
     (let duration = (case preset of
                        None \<Rightarrow> 50
                      | Some p \<Rightarrow> (case pr_minutes p of None \<Rightarrow> 50 | Some m \<Rightarrow> m)) * 60;
          nt = \<lparr>id' = uuid,
                game = (case preset of
                          None \<Rightarrow> ''Untitled Game''
                        | Some p \<Rightarrow> (case pr_game p of
                                       None \<Rightarrow> ''Untitled Game''
                                     | Some g \<Rightarrow> if g = [] then ''Untitled Game'' else g)),
                icon = (case preset of None \<Rightarrow> None | Some p \<Rightarrow> pr_icon p),
                durationSec = duration,
                remainingSec = duration,
                status = PAUSED,
                announceAt = [300, 120],
                pinned = Some False\<rparr>
      in t @ [nt])"

definition updateTimer :: "string \<Rightarrow> Patch \<Rightarrow> real GameTimer list \<Rightarrow> real GameTimer list" where
  "updateTimer i p t = map (\<lambda>x. if id' x = i then merge x p else x) t"

text \<open>
  The \<open>onClick\<close> and \<open>onChange\<close> handlers of \<open>TimerCard\<close>. Each is given the timer the card
  shows and the list it updates.
\<close>

definition clickStartPause :: "real GameTimer \<Rightarrow> real GameTimer list \<Rightarrow> real GameTimer list" where
  "clickStartPause timer =
     updateTimer (id' timer)
       (noPatch\<lparr>p_status := Some (if status timer = RUNNING then PAUSED else RUNNING)\<rparr>)"

definition clickReset :: "real GameTimer \<Rightarrow> real GameTimer list \<Rightarrow> real GameTimer list" where
  "clickReset timer =
     updateTimer (id' timer)
       (noPatch\<lparr>p_remainingSec := Some (durationSec timer), p_status := Some PAUSED\<rparr>)"

definition clickMinus1 :: "real GameTimer \<Rightarrow> real GameTimer list \<Rightarrow> real GameTimer list" where
  "clickMinus1 timer =
     updateTimer (id' timer) (noPatch\<lparr>p_remainingSec := Some (max 0 (remainingSec timer - 60))\<rparr>)"

definition clickPlus1 :: "real GameTimer \<Rightarrow> real GameTimer list \<Rightarrow> real GameTimer list" where
  "clickPlus1 timer =
     updateTimer (id' timer) (noPatch\<lparr>p_remainingSec := Some (remainingSec timer + 60)\<rparr>)"

text \<open>
  The minutes field: \<open>v\<close> is \<open>Number(e.target.value)\<close>, with \<open>None\<close> for NaN; both NaN
  and 0 are falsy, so \<open>|| 1\<close> replaces them.
\<close>

definition changeMinutes :: "real option \<Rightarrow> real GameTimer \<Rightarrow> real GameTimer list \<Rightarrow> real GameTimer list" where
  "changeMinutes v timer =
     (let mins = max 1 (case v of None \<Rightarrow> 1 | Some n \<Rightarrow> if n = 0 then 1 else n);
          durationSec = mins * 60;
          remainingSec = min (remainingSec timer) durationSec
      in updateTimer (id' timer)
           (noPatch\<lparr>p_durationSec := Some durationSec, p_remainingSec := Some remainingSec\<rparr>))"

subsection \<open>Restoring the timers from local storage\<close>

text \<open>
  An entry of the parsed array, as the normalization reads it. Where the source tests the
  type of a field (\<open>typeof t.durationSec === 'number'\<close>, the same for \<open>remainingSec\<close>,
  \<open>Array.isArray(t.announceAt)\<close>, the comparisons of \<open>t.status\<close> with two strings), \<open>None\<close>
  stands for a field that is missing or of another type; a number of the parsed JSON is a
  real number. The fields \<open>id\<close>, \<open>game\<close>, \<open>icon\<close> and \<open>pinned\<close> are read at their declared
  type, \<open>None\<close> standing for a missing field. An entry that is not an object, other than
  \<open>null\<close>, has no field at all.

  The legacy field \<open>minutes\<close> is tested for truthiness and then multiplied by 60, whatever
  its type. It is \<open>None\<close> when it is missing or is a falsy value other than a number
  (\<open>null\<close>, \<open>false\<close>, the empty string); \<open>MinutesNumber m\<close> when it is the number \<open>m\<close>,
  falsy if \<open>m = 0\<close>; and \<open>MinutesOther n\<close> when it is a truthy value that is not a number
  (a non-empty string, \<open>true\<close>, an array, an object), \<open>n\<close> being the number the
  multiplication converts it to: 30 for \<open>"30"\<close>, 1 for \<open>true\<close>, NaN for \<open>"abc"\<close> or \<open>{}\<close>.
\<close>

datatype minutesValue = MinutesNumber real | MinutesOther number

record StoredTimer =
  s_id :: "string option"
  s_game :: "string option"
  s_icon :: "string option"
  s_durationSec :: "real option"
  s_minutes :: "minutesValue option"
  s_remainingSec :: "real option"
  s_status :: "string option"
  s_announceAt :: "real list option"
  s_pinned :: "bool option"

text \<open>\<open>v || d\<close> for a string: the empty string and \<open>undefined\<close> are falsy.\<close>

definition orElse :: "string option \<Rightarrow> string \<Rightarrow> string" where
  "orElse v d = (case v of None \<Rightarrow> d | Some s \<Rightarrow> if s = [] then d else s)"

text \<open>The default icon, the game-controller emoji U+1F3AE, as UTF-8.\<close>

definition defaultIcon :: string where
  "defaultIcon = [CHR 0xF0, CHR 0x9F, CHR 0x8E, CHR 0xAE]"

text \<open>\<open>Math.max\<close> and \<open>Math.min\<close> of two arguments: NaN if one of them is NaN.\<close>

definition Math_max :: "number \<Rightarrow> number \<Rightarrow> number" where
  "Math_max a b = (case (a, b) of (Num x, Num y) \<Rightarrow> Num (max x y) | _ \<Rightarrow> NaN)"

definition Math_min :: "number \<Rightarrow> number \<Rightarrow> number" where
  "Math_min a b = (case (a, b) of (Num x, Num y) \<Rightarrow> Num (min x y) | _ \<Rightarrow> NaN)"

text \<open>\<open>t.minutes ? t.minutes * 60 : 3000\<close>.\<close>

definition minutesOr3000 :: "minutesValue option \<Rightarrow> number" where
  "minutesOr3000 v =
     (case v of
        None \<Rightarrow> Num 3000
      | Some (MinutesNumber m) \<Rightarrow> if m \<noteq> 0 then Num (m * 60) else Num 3000
      | Some (MinutesOther n) \<Rightarrow> (case n of NaN \<Rightarrow> NaN | Num x \<Rightarrow> Num (x * 60)))"

text \<open>
  The function mapped over the parsed array. \<open>fresh i\<close> is the identifier made up for the
  entry at index \<open>i\<close>: \<open>crypto.randomUUID()\<close>, or the time stamp followed by \<open>_i\<close>.
\<close>

definition normalizeTimer :: "(nat \<Rightarrow> string) \<Rightarrow> StoredTimer \<Rightarrow> nat \<Rightarrow> number GameTimer" where
  "normalizeTimer fresh t i =
     (let ident = orElse (s_id t) (fresh i);
          durationSec =
            (case s_durationSec t of
               Some d \<Rightarrow> Num d
             | None \<Rightarrow> Math_max (Num 60) (minutesOr3000 (s_minutes t)));
          remainingSec =
            Math_min durationSec
              (case s_remainingSec t of Some r \<Rightarrow> Num r | None \<Rightarrow> durationSec);
          status =
            (if s_status t = Some ''RUNNING'' then RUNNING
             else if s_status t = Some ''FINISHED'' then FINISHED
             else PAUSED);
          announceAt = (case s_announceAt t of Some a \<Rightarrow> a | None \<Rightarrow> [300, 120])
      in \<lparr>id' = ident,
          game = orElse (s_game t) ''Untitled Game'',
          icon = Some (orElse (s_icon t) defaultIcon),
          durationSec = durationSec,
          remainingSec = remainingSec,
          status = status,
          announceAt = announceAt,
          pinned = Some (s_pinned t = Some True)\<rparr>)"

text \<open>
  The initializer of the \<open>timers\<close> state. Its argument is what \<open>JSON.parse\<close> made of the
  stored item: \<open>None\<close> when there is no item, when it does not parse, or when it is not an
  array (a falsy value is replaced by \<open>[]\<close>, any other value has no \<open>map\<close>, and the
  \<open>TypeError\<close> is caught); otherwise the entries, \<open>None\<close> for a \<open>null\<close> entry. Reading
  \<open>t.id\<close> of \<open>null\<close> throws, and the \<open>catch\<close> returns the empty list for the whole load.
\<close>

definition loadTimers ::
  "(nat \<Rightarrow> string) \<Rightarrow> StoredTimer option list option \<Rightarrow> number GameTimer list" where
  "loadTimers fresh raw =
     (case raw of
        None \<Rightarrow> []
      | Some parsed \<Rightarrow>
          (case those parsed of
             None \<Rightarrow> []
           | Some ts \<Rightarrow> map (\<lambda>(i, t). normalizeTimer fresh t i) (enumerate 0 ts)))"

text \<open>
  The timers are saved with \<open>JSON.stringify\<close> and read back with \<open>JSON.parse\<close>.
  \<open>stored\<close> is the entry that the normalization reads back from a saved timer: every field
  of the timer under its own name, and no \<open>minutes\<close>. \<open>JSON.stringify\<close> writes NaN as
  \<open>null\<close>, which is read back as a field that is not a number.
\<close>

definition statusName :: "TimerStatus \<Rightarrow> string" where
  "statusName s = (case s of RUNNING \<Rightarrow> ''RUNNING'' | PAUSED \<Rightarrow> ''PAUSED'' | FINISHED \<Rightarrow> ''FINISHED'')"

definition jsonNumber :: "number \<Rightarrow> real option" where
  "jsonNumber n = (case n of NaN \<Rightarrow> None | Num x \<Rightarrow> Some x)"

definition stored :: "number GameTimer \<Rightarrow> StoredTimer" where
  "stored tm =
     \<lparr>s_id = Some (id' tm), s_game = Some (game tm), s_icon = icon tm,
      s_durationSec = jsonNumber (durationSec tm), s_minutes = None,
      s_remainingSec = jsonNumber (remainingSec tm), s_status = Some (statusName (status tm)),
      s_announceAt = Some (announceAt tm), s_pinned = pinned tm\<rparr>"

definition saved :: "number GameTimer list \<Rightarrow> StoredTimer option list option" where
  "saved tms = Some (map (\<lambda>tm. Some (stored tm)) tms)"

text \<open>
  The loaded list is the first state of the board. \<open>boardTimer\<close> reads a restored timer
  as a timer of the board's model, which it is unless its seconds are NaN.
\<close>

definition boardTimer :: "number GameTimer \<Rightarrow> real GameTimer option" where
  "boardTimer tm =
     (case (durationSec tm, remainingSec tm) of
        (Num d, Num r) \<Rightarrow>
          Some \<lparr>id' = id' tm, game = game tm, icon = icon tm, durationSec = d,
                remainingSec = r, status = status tm, announceAt = announceAt tm,
                pinned = pinned tm\<rparr>
      | _ \<Rightarrow> None)"

subsection \<open>Properties named by the specification\<close>

text \<open>The invariant of the data model: \<open>0 \<le> remainingSec \<le> durationSec\<close>.\<close>

definition inRange :: "real GameTimer \<Rightarrow> bool" where
  "inRange tm = (0 \<le> remainingSec tm \<and> remainingSec tm \<le> durationSec tm)"

text \<open>The same for a restored timer; a comparison with NaN is false.\<close>

definition withinRange :: "number GameTimer \<Rightarrow> bool" where
  "withinRange tm =
     (case (remainingSec tm, durationSec tm) of
        (Num r, Num d) \<Rightarrow> 0 \<le> r \<and> r \<le> d
      | _ \<Rightarrow> False)"

text \<open>A two-digit, zero-padded field, for a number below 100.\<close>

definition twoDigits :: "nat \<Rightarrow> string" where
  "twoDigits n = [digit (n div 10), digit (n mod 10)]"

text \<open>A clock string all of whose fields have two digits: \<open>dd:dd\<close> or \<open>dd:dd:dd\<close>.\<close>

definition isDigit :: "char \<Rightarrow> bool" where
  "isDigit c = (c \<in> set ''0123456789'')"

fun twoDigitFields :: "string \<Rightarrow> bool" where
  "twoDigitFields [a, b, c, d, e] =
     (isDigit a \<and> isDigit b \<and> c = CHR '':'' \<and> isDigit d \<and> isDigit e)"
| "twoDigitFields [a, b, c, d, e, f, g, h] =
     (isDigit a \<and> isDigit b \<and> c = CHR '':'' \<and> isDigit d \<and> isDigit e \<and> f = CHR '':'' \<and>
      isDigit g \<and> isDigit h)"
| "twoDigitFields s = False"

subsection \<open>Timers and stored entries of the scenarios\<close>

definition scenarioTimer :: "real GameTimer" where
  "scenarioTimer = \<lparr>id' = ''t1'', game = ''One Piece'', icon = None, durationSec = 10,
     remainingSec = 10, status = RUNNING, announceAt = [300, 120], pinned = Some False\<rparr>"

definition fullTimer :: "real GameTimer" where
  "fullTimer = \<lparr>id' = ''t2'', game = ''Lorcana'', icon = None, durationSec = 1800,
     remainingSec = 1800, status = PAUSED, announceAt = [300, 120], pinned = Some False\<rparr>"

definition thresholdTimer :: "real GameTimer" where
  "thresholdTimer = \<lparr>id' = ''t3'', game = ''Gundam'', icon = None, durationSec = 1800,
     remainingSec = 301, status = RUNNING, announceAt = [300, 120], pinned = Some False\<rparr>"

text \<open>
  Two timers as the loader restores them from stored entries with the id \<open>__proto__\<close>, and
  one restored from an entry with \<open>remainingSec = -1\<close>; the entries follow below.
\<close>

definition protoFinished :: "real GameTimer" where
  "protoFinished = \<lparr>id' = ''__proto__'', game = ''Untitled Game'', icon = Some defaultIcon,
     durationSec = 10, remainingSec = 0, status = FINISHED, announceAt = [300, 120],
     pinned = Some False\<rparr>"

definition protoPaused :: "real GameTimer" where
  "protoPaused = \<lparr>id' = ''__proto__'', game = ''Untitled Game'', icon = Some defaultIcon,
     durationSec = 1800, remainingSec = 300, status = PAUSED, announceAt = [300, 120],
     pinned = Some False\<rparr>"

definition negativeRunning :: "real GameTimer" where
  "negativeRunning = \<lparr>id' = ''t4'', game = ''Untitled Game'', icon = Some defaultIcon,
     durationSec = 10, remainingSec = - 1, status = RUNNING, announceAt = [300, 120],
     pinned = Some False\<rparr>"

definition emptyEntry :: StoredTimer where
  "emptyEntry = \<lparr>s_id = None, s_game = None, s_icon = None, s_durationSec = None,
     s_minutes = None, s_remainingSec = None, s_status = None, s_announceAt = None,
     s_pinned = None\<rparr>"

definition freshExample :: "nat \<Rightarrow> string" where
  "freshExample i = ''1700000000000_'' @ String_nat i"

definition protoFinishedEntry :: StoredTimer where
  "protoFinishedEntry = emptyEntry\<lparr>s_id := Some ''__proto__'', s_durationSec := Some 10,
     s_remainingSec := Some 0, s_status := Some ''FINISHED''\<rparr>"

definition protoPausedEntry :: StoredTimer where
  "protoPausedEntry = emptyEntry\<lparr>s_id := Some ''__proto__'', s_durationSec := Some 1800,
     s_remainingSec := Some 300\<rparr>"

definition negativeRunningEntry :: StoredTimer where
  "negativeRunningEntry = emptyEntry\<lparr>s_id := Some ''t4'', s_durationSec := Some 10,
     s_remainingSec := Some (- 1), s_status := Some ''RUNNING''\<rparr>"

section \<open>The tick\<close>

lemma tickTimer_running:
  "status tm = RUNNING \<Longrightarrow>
   tickTimer tm = tm\<lparr>remainingSec := max 0 (remainingSec tm - 1),
                     status := (if max 0 (remainingSec tm - 1) = 0 then FINISHED else RUNNING)\<rparr>"
  by (simp add: tickTimer_def tickRateMs_def Let_def max_def)

lemma tickTimer_not_running: "status tm \<noteq> RUNNING \<Longrightarrow> tickTimer tm = tm"
  by (simp add: tickTimer_def)

text \<open>
  C1. On any list of timers, the tick keeps the length of the list; a timer that is
  RUNNING gets \<open>remainingSec\<close> decreased by the tick delta and clamped at zero, and becomes
  FINISHED exactly when the clamped value is zero (it stays RUNNING otherwise), with no other
  field changed; a timer that is not RUNNING is left as it is. The delta is one second. A
  RUNNING timer with \<open>durationSec = 10\<close> and \<open>remainingSec = 10\<close> is RUNNING with
  \<open>remainingSec = 7\<close> after three ticks, and a tick does not change the \<open>remainingSec\<close> of a
  PAUSED timer.
\<close>

theorem tick_decrements_running_only:
  "length (tick tms) = length tms \<and>
   (i < length tms \<and> status (tms ! i) = RUNNING \<longrightarrow>
      tick tms ! i =
        (tms ! i)\<lparr>remainingSec := max 0 (remainingSec (tms ! i) - tickRateMs / 1000),
                  status := (if max 0 (remainingSec (tms ! i) - tickRateMs / 1000) = 0
                             then FINISHED else RUNNING)\<rparr>) \<and>
   (i < length tms \<and> status (tms ! i) \<noteq> RUNNING \<longrightarrow> tick tms ! i = tms ! i) \<and>
   tickRateMs / 1000 = 1 \<and>
   (status tm = RUNNING \<and> durationSec tm = 10 \<and> remainingSec tm = 10 \<longrightarrow>
      tick (tick (tick [tm])) = [tm\<lparr>remainingSec := 7\<rparr>]) \<and>
   (status tm = PAUSED \<longrightarrow> map remainingSec (tick [tm]) = [remainingSec tm])"
proof (intro conjI impI)
  show "length (tick tms) = length tms" by (simp add: tick_def)
  show "tickRateMs / 1000 = 1" by (simp add: tickRateMs_def)
next
  assume "i < length tms \<and> status (tms ! i) = RUNNING"
  then show "tick tms ! i =
           (tms ! i)\<lparr>remainingSec := max 0 (remainingSec (tms ! i) - tickRateMs / 1000),
                     status := (if max 0 (remainingSec (tms ! i) - tickRateMs / 1000) = 0
                                then FINISHED else RUNNING)\<rparr>"
    by (simp add: tick_def tickTimer_running) (simp add: tickRateMs_def)
next
  assume "i < length tms \<and> status (tms ! i) \<noteq> RUNNING"
  then show "tick tms ! i = tms ! i"
    by (simp add: tick_def tickTimer_not_running)
next
  assume "status tm = RUNNING \<and> durationSec tm = 10 \<and> remainingSec tm = 10"
  then show "tick (tick (tick [tm])) = [tm\<lparr>remainingSec := 7\<rparr>]"
    by (simp add: tick_def tickTimer_running)
next
  assume "status tm = PAUSED"
  then show "map remainingSec (tick [tm]) = [remainingSec tm]"
    by (simp add: tick_def tickTimer_not_running)
qed

theorem tick_decrements_running_only_witness:
  "tick [scenarioTimer\<lparr>remainingSec := 1\<rparr>, scenarioTimer] ! 0 =
     scenarioTimer\<lparr>remainingSec := 0, status := FINISHED\<rparr> \<and>
   tick [scenarioTimer\<lparr>status := FINISHED\<rparr>] ! 0 = scenarioTimer\<lparr>status := FINISHED\<rparr> \<and>
   tick (tick (tick [scenarioTimer])) = [scenarioTimer\<lparr>remainingSec := 7\<rparr>] \<and>
   map remainingSec (tick [scenarioTimer\<lparr>status := PAUSED\<rparr>]) = [10]"
proof -
  have a: "tick [scenarioTimer\<lparr>remainingSec := 1\<rparr>, scenarioTimer] ! 0 =
     scenarioTimer\<lparr>remainingSec := 0, status := FINISHED\<rparr>"
    using tick_decrements_running_only
      [of "[scenarioTimer\<lparr>remainingSec := 1\<rparr>, scenarioTimer]" 0 scenarioTimer]
    by (simp add: scenarioTimer_def)
  have b: "tick [scenarioTimer\<lparr>status := FINISHED\<rparr>] ! 0 = scenarioTimer\<lparr>status := FINISHED\<rparr>"
    using tick_decrements_running_only
      [of "[scenarioTimer\<lparr>status := FINISHED\<rparr>]" 0 scenarioTimer]
    by (simp add: scenarioTimer_def)
  have c: "tick (tick (tick [scenarioTimer])) = [scenarioTimer\<lparr>remainingSec := 7\<rparr>]"
    using tick_decrements_running_only [of "[]" 0 scenarioTimer]
    by (simp add: scenarioTimer_def)
  have d: "map remainingSec (tick [scenarioTimer\<lparr>status := PAUSED\<rparr>]) = [10]"
    using tick_decrements_running_only [of "[]" 0 "scenarioTimer\<lparr>status := PAUSED\<rparr>"]
    by (simp add: scenarioTimer_def)
  from a b c d show ?thesis by simp
qed

section \<open>The buttons and the invariant\<close>

lemma updateTimer_length: "length (updateTimer k p t) = length t"
  by (simp add: updateTimer_def)

lemma updateTimer_nth:
  "i < length t \<Longrightarrow> updateTimer (id' (t ! i)) p t ! i = merge (t ! i) p"
  by (simp add: updateTimer_def)

lemma tickTimer_inRange: "inRange tm \<Longrightarrow> inRange (tickTimer tm)"
  by (auto simp: inRange_def tickTimer_def Let_def tickRateMs_def)

lemma tick_inRange: "\<forall>tm \<in> set tms. inRange tm \<Longrightarrow> \<forall>tm \<in> set (tick tms). inRange tm"
  by (auto simp: tick_def tickTimer_inRange)

lemma clickMinus1_inRange:
  "i < length t \<Longrightarrow> inRange (t ! i) \<Longrightarrow> inRange (clickMinus1 (t ! i) t ! i)"
  by (auto simp: clickMinus1_def updateTimer_nth merge_def noPatch_def inRange_def)

lemma clickReset_inRange:
  "i < length t \<Longrightarrow> inRange (t ! i) \<Longrightarrow> inRange (clickReset (t ! i) t ! i)"
  by (auto simp: clickReset_def updateTimer_nth merge_def noPatch_def inRange_def)

lemma changeMinutes_inRange:
  "i < length t \<Longrightarrow> inRange (t ! i) \<Longrightarrow> inRange (changeMinutes v (t ! i) t ! i)"
  by (auto simp: changeMinutes_def Let_def updateTimer_nth merge_def noPatch_def inRange_def
      split: option.splits)

text \<open>
  C2. The invariant \<open>0 \<le> remainingSec \<le> durationSec\<close> is kept by the tick, by the
  \<open>-1 min\<close> button, by the reset and by the edit of the duration (the lemmas above), but
  not by the \<open>+1 min\<close> button, which adds 60 seconds and applies no bound: on a timer with
  \<open>remainingSec = durationSec = 1800\<close>, which satisfies the invariant, it gives
  \<open>remainingSec = 1860\<close>, above \<open>durationSec\<close>.
\<close>

theorem clickPlus1_exceeds_duration:
  "inRange fullTimer \<and>
   clickPlus1 fullTimer [fullTimer] = [fullTimer\<lparr>remainingSec := 1860\<rparr>] \<and>
   durationSec fullTimer = 1800 \<and>
   \<not> inRange (fullTimer\<lparr>remainingSec := 1860\<rparr>)"
  by (simp add: clickPlus1_def updateTimer_def merge_def noPatch_def inRange_def fullTimer_def)

section \<open>The life cycle of a timer\<close>

text \<open>
  C3, as stated, fails: one click on the Start/Pause button of a FINISHED timer gives a
  RUNNING timer, with no reset in between.
\<close>

theorem finished_restarts_counterexample:
  "status (scenarioTimer\<lparr>remainingSec := 0, status := FINISHED\<rparr>) = FINISHED \<and>
   clickStartPause (scenarioTimer\<lparr>remainingSec := 0, status := FINISHED\<rparr>)
     [scenarioTimer\<lparr>remainingSec := 0, status := FINISHED\<rparr>] =
   [scenarioTimer\<lparr>remainingSec := 0, status := RUNNING\<rparr>]"
  by (simp add: clickStartPause_def updateTimer_def merge_def noPatch_def scenarioTimer_def)

text \<open>
  C3, amended. A RUNNING timer whose \<open>remainingSec\<close> reaches 0 at a tick (it was at
  most one second) becomes FINISHED with \<open>remainingSec = 0\<close>. A FINISHED timer is left as
  it is by a tick, and its status is kept by the \<open>-1 min\<close> and \<open>+1 min\<close> buttons and by an
  edit of the duration. The reset sets \<open>remainingSec\<close> to \<open>durationSec\<close> and the status
  to PAUSED. The Start/Pause button sets a RUNNING timer to PAUSED and every other timer, a
  FINISHED one included, to RUNNING.
\<close>

theorem finished_until_reset_or_start:
  "(i < length tms \<and> status (tms ! i) = RUNNING \<and> remainingSec (tms ! i) \<le> 1 \<longrightarrow>
      status (tick tms ! i) = FINISHED \<and> remainingSec (tick tms ! i) = 0) \<and>
   (i < length tms \<and> status (tms ! i) = FINISHED \<longrightarrow>
      tick tms ! i = tms ! i \<and>
      status (clickMinus1 (tms ! i) tms ! i) = FINISHED \<and>
      status (clickPlus1 (tms ! i) tms ! i) = FINISHED \<and>
      status (changeMinutes v (tms ! i) tms ! i) = FINISHED) \<and>
   (i < length tms \<longrightarrow>
      clickReset (tms ! i) tms ! i =
        (tms ! i)\<lparr>remainingSec := durationSec (tms ! i), status := PAUSED\<rparr>) \<and>
   (i < length tms \<longrightarrow>
      clickStartPause (tms ! i) tms ! i =
        (tms ! i)\<lparr>status := (if status (tms ! i) = RUNNING then PAUSED else RUNNING)\<rparr>)"
proof (intro conjI impI)
  assume "i < length tms \<and> status (tms ! i) = RUNNING \<and> remainingSec (tms ! i) \<le> 1"
  then show "status (tick tms ! i) = FINISHED" "remainingSec (tick tms ! i) = 0"
    by (simp_all add: tick_def tickTimer_running)
next
  assume a: "i < length tms \<and> status (tms ! i) = FINISHED"
  then show "tick tms ! i = tms ! i"
    by (simp add: tick_def tickTimer_not_running)
  from a show "status (clickMinus1 (tms ! i) tms ! i) = FINISHED"
    by (simp add: clickMinus1_def updateTimer_nth merge_def noPatch_def)
  from a show "status (clickPlus1 (tms ! i) tms ! i) = FINISHED"
    by (simp add: clickPlus1_def updateTimer_nth merge_def noPatch_def)
  from a show "status (changeMinutes v (tms ! i) tms ! i) = FINISHED"
    by (simp add: changeMinutes_def Let_def updateTimer_nth merge_def noPatch_def)
next
  assume "i < length tms"
  then show "clickReset (tms ! i) tms ! i =
        (tms ! i)\<lparr>remainingSec := durationSec (tms ! i), status := PAUSED\<rparr>"
    by (simp add: clickReset_def updateTimer_nth merge_def noPatch_def)
next
  assume "i < length tms"
  then show "clickStartPause (tms ! i) tms ! i =
        (tms ! i)\<lparr>status := (if status (tms ! i) = RUNNING then PAUSED else RUNNING)\<rparr>"
    by (simp add: clickStartPause_def updateTimer_nth merge_def noPatch_def)
qed

theorem finished_until_reset_or_start_witness:
  "status (tick [scenarioTimer\<lparr>remainingSec := 1\<rparr>] ! 0) = FINISHED \<and>
   remainingSec (tick [scenarioTimer\<lparr>remainingSec := 1\<rparr>] ! 0) = 0 \<and>
   tick [scenarioTimer\<lparr>remainingSec := 0, status := FINISHED\<rparr>] ! 0 =
     scenarioTimer\<lparr>remainingSec := 0, status := FINISHED\<rparr> \<and>
   clickReset (scenarioTimer\<lparr>remainingSec := 0, status := FINISHED\<rparr>)
     [scenarioTimer\<lparr>remainingSec := 0, status := FINISHED\<rparr>] ! 0 =
     scenarioTimer\<lparr>status := PAUSED\<rparr> \<and>
   clickStartPause (scenarioTimer\<lparr>remainingSec := 0, status := FINISHED\<rparr>)
     [scenarioTimer\<lparr>remainingSec := 0, status := FINISHED\<rparr>] ! 0 =
     scenarioTimer\<lparr>remainingSec := 0\<rparr>"
proof -
  have a: "status (tick [scenarioTimer\<lparr>remainingSec := 1\<rparr>] ! 0) = FINISHED \<and>
   remainingSec (tick [scenarioTimer\<lparr>remainingSec := 1\<rparr>] ! 0) = 0"
    using finished_until_reset_or_start [of 0 "[scenarioTimer\<lparr>remainingSec := 1\<rparr>]"]
    by (simp add: scenarioTimer_def)
  have b: "tick [scenarioTimer\<lparr>remainingSec := 0, status := FINISHED\<rparr>] ! 0 =
     scenarioTimer\<lparr>remainingSec := 0, status := FINISHED\<rparr> \<and>
   clickReset (scenarioTimer\<lparr>remainingSec := 0, status := FINISHED\<rparr>)
     [scenarioTimer\<lparr>remainingSec := 0, status := FINISHED\<rparr>] ! 0 =
     scenarioTimer\<lparr>status := PAUSED\<rparr> \<and>
   clickStartPause (scenarioTimer\<lparr>remainingSec := 0, status := FINISHED\<rparr>)
     [scenarioTimer\<lparr>remainingSec := 0, status := FINISHED\<rparr>] ! 0 =
     scenarioTimer\<lparr>remainingSec := 0\<rparr>"
    using finished_until_reset_or_start
      [of 0 "[scenarioTimer\<lparr>remainingSec := 0, status := FINISHED\<rparr>]"]
    by (simp add: scenarioTimer_def)
  from a b show ?thesis by simp
qed

section \<open>The formatter\<close>

lemma isDigit_digit: "isDigit (digit d)"
  by (simp add: isDigit_def digit_def)

lemma String_nat_small: "n < 10 \<Longrightarrow> String_nat n = [digit n]"
  by (simp add: String_nat.simps)

lemma String_nat_two: "10 \<le> n \<Longrightarrow> n < 100 \<Longrightarrow> String_nat n = twoDigits n"
  by (subst String_nat.simps) (simp add: String_nat_small twoDigits_def)

lemma String_nat_nonempty: "1 \<le> length (String_nat n)"
  by (subst String_nat.simps) simp

lemma String_nat_long: "100 \<le> n \<Longrightarrow> 3 \<le> length (String_nat n)"
proof -
  assume a: "100 \<le> n"
  then have b: "10 \<le> n div 10" by simp
  have "String_nat n = String_nat (n div 10 div 10) @ [digit (n div 10 mod 10)] @ [digit (n mod 10)]"
    using a b by (subst String_nat.simps, simp, subst String_nat.simps, simp)
  then show ?thesis using String_nat_nonempty [of "n div 10 div 10"] by simp
qed

lemma pad_two: "n < 100 \<Longrightarrow> pad n = twoDigits n"
proof (cases "n < 10")
  case True
  then show ?thesis
    by (simp add: pad_def padStart2_def String_nat_small twoDigits_def digit_def)
next
  case False
  assume "n < 100"
  with False show ?thesis
    by (simp add: pad_def padStart2_def String_nat_two twoDigits_def)
qed

lemma pad_long: "100 \<le> n \<Longrightarrow> pad n = String_nat n"
  using String_nat_long [of n] by (simp add: pad_def padStart2_def)

lemma nat_max_less: "k < 360000 \<Longrightarrow> nat (max 0 k) < 360000"
  by simp

lemma nat_max_ge: "360000 \<le> k \<Longrightarrow> 360000 \<le> nat (max 0 k)"
  by simp

text \<open>
  C9, as stated, fails: from 100 hours on the hour field has three digits, since
  \<open>padStart\<close> only pads. 360000 seconds are formatted as \<open>100:00:00\<close>.
\<close>

theorem formatHHMMSS_hours_counterexample:
  "formatHHMMSS 360000 = ''100:00:00'' \<and> \<not> twoDigitFields (formatHHMMSS 360000)"
  by (simp add: formatHHMMSS_def pad_def padStart2_def String_nat.simps digit_def Let_def)

lemma formatHHMMSS_eq:
  "formatHHMMSS x =
     (let s = nat (max 0 \<lfloor>x\<rfloor>);
          h = s div 3600;
          m = (s mod 3600) div 60;
          sec = s mod 60
      in if h = 0 then twoDigits m @ '':'' @ twoDigits sec
         else (if h < 100 then twoDigits h else String_nat h) @ '':'' @ twoDigits m @ '':'' @
              twoDigits sec)"
proof -
  let ?s = "nat (max 0 \<lfloor>x\<rfloor>)"
  have m: "pad (?s mod 3600 div 60) = twoDigits (?s mod 3600 div 60)"
    by (rule pad_two) (simp add: div_less_iff_less_mult)
  have sec: "pad (?s mod 60) = twoDigits (?s mod 60)"
    by (rule pad_two) (simp add: less_trans [OF mod_less_divisor])
  show ?thesis
    unfolding formatHHMMSS_def Let_def m sec
    by (simp add: pad_two pad_long)
qed

text \<open>
  C9, amended. For every real number of seconds the formatter takes the floor of the input,
  clamped at zero, and returns minutes and seconds when the number of whole hours is zero,
  and hours, minutes and seconds otherwise, separated by colons. The minute and the second
  field always have two digits, zero-padded. The hour field has two digits, zero-padded,
  below 100 hours, and is the decimal number of hours, of three digits or more, from 100
  hours on. So every field has two digits for an input below 360000, and the string has at
  least nine characters from 360000 on. 3661 gives \<open>01:01:01\<close>, 59 gives \<open>00:59\<close>
  and -5 gives \<open>00:00\<close>.
\<close>

theorem formatHHMMSS_fields:
  "formatHHMMSS x =
     (let s = nat (max 0 \<lfloor>x\<rfloor>);
          h = s div 3600;
          m = (s mod 3600) div 60;
          sec = s mod 60
      in if h = 0 then twoDigits m @ '':'' @ twoDigits sec
         else (if h < 100 then twoDigits h else String_nat h) @ '':'' @ twoDigits m @ '':'' @
              twoDigits sec) \<and>
   (x < 360000 \<longrightarrow> twoDigitFields (formatHHMMSS x)) \<and>
   (360000 \<le> x \<longrightarrow> 9 \<le> length (formatHHMMSS x)) \<and>
   formatHHMMSS 3661 = ''01:01:01'' \<and> formatHHMMSS 59 = ''00:59'' \<and>
   formatHHMMSS (- 5) = ''00:00''"
proof (intro conjI impI)
  show "formatHHMMSS x =
     (let s = nat (max 0 \<lfloor>x\<rfloor>);
          h = s div 3600;
          m = (s mod 3600) div 60;
          sec = s mod 60
      in if h = 0 then twoDigits m @ '':'' @ twoDigits sec
         else (if h < 100 then twoDigits h else String_nat h) @ '':'' @ twoDigits m @ '':'' @
              twoDigits sec)"
    by (rule formatHHMMSS_eq)
next
  assume "x < 360000"
  then have "\<lfloor>x\<rfloor> < 360000" by (simp add: floor_less_iff)
  then have "nat (max 0 \<lfloor>x\<rfloor>) < 360000" by (rule nat_max_less)
  then have "nat (max 0 \<lfloor>x\<rfloor>) div 3600 < 100" by (simp add: div_less_iff_less_mult)
  then show "twoDigitFields (formatHHMMSS x)"
    by (simp add: formatHHMMSS_eq Let_def twoDigits_def isDigit_digit)
next
  assume "360000 \<le> x"
  then have "360000 \<le> \<lfloor>x\<rfloor>" by (simp add: le_floor_iff)
  then have "360000 \<le> nat (max 0 \<lfloor>x\<rfloor>)" by (rule nat_max_ge)
  then have h: "100 \<le> nat (max 0 \<lfloor>x\<rfloor>) div 3600" by (simp add: less_eq_div_iff_mult_less_eq)
  then show "9 \<le> length (formatHHMMSS x)"
    using String_nat_long [OF h] by (simp add: formatHHMMSS_eq Let_def twoDigits_def)
next
  show "formatHHMMSS 3661 = ''01:01:01''"
    by (simp add: formatHHMMSS_def pad_def padStart2_def String_nat.simps digit_def Let_def)
  show "formatHHMMSS 59 = ''00:59''"
    by (simp add: formatHHMMSS_def pad_def padStart2_def String_nat.simps digit_def Let_def)
  show "formatHHMMSS (- 5) = ''00:00''"
    by (simp add: formatHHMMSS_def pad_def padStart2_def String_nat.simps digit_def Let_def)
qed

theorem formatHHMMSS_fields_witness:
  "twoDigitFields (formatHHMMSS 3661) \<and> 9 \<le> length (formatHHMMSS 360000) \<and>
   formatHHMMSS 7325.5 = ''02:02:05''"
proof -
  have a: "twoDigitFields (formatHHMMSS 3661)"
    using formatHHMMSS_fields [of 3661, THEN conjunct2, THEN conjunct1] by simp
  have b: "9 \<le> length (formatHHMMSS 360000)"
    using formatHHMMSS_fields [of 360000, THEN conjunct2, THEN conjunct2, THEN conjunct1]
    by simp
  have c: "formatHHMMSS 7325.5 = ''02:02:05''"
    using formatHHMMSS_fields [of "7325.5", THEN conjunct1]
    by (simp add: Let_def twoDigits_def digit_def)
  from a b c show ?thesis by simp
qed

section \<open>The milestone detector\<close>

lemma detector_Cons_fst:
  "fst (detector (tm # tms) seen) =
     fst (detectTimer tm seen) @ fst (detector tms (snd (detectTimer tm seen)))"
  by (simp add: case_prod_beta)

lemma detector_Cons_snd:
  "snd (detector (tm # tms) seen) = snd (detector tms (snd (detectTimer tm seen)))"
  by (simp add: case_prod_beta)

lemma detectTimer_other:
  "id' tm \<noteq> k \<Longrightarrow>
   snd (detectTimer tm seen) k = seen k \<and>
   filter (\<lambda>n. timerOf n = k) (fst (detectTimer tm seen)) = []"
  by (simp add: detectTimer_def writeSeen_def Let_def)

lemma detectTimer_own:
  "filter (\<lambda>n. timerOf n = id' tm) (fst (detectTimer tm seen)) = fst (detectTimer tm seen)"
  by (simp add: detectTimer_def Let_def)

lemma detectTimer_cong:
  "seen (id' tm) = other (id' tm) \<Longrightarrow>
   fst (detectTimer tm seen) = fst (detectTimer tm other) \<and>
   snd (detectTimer tm seen) (id' tm) = snd (detectTimer tm other) (id' tm)"
  by (auto simp: detectTimer_def readSeen_def writeSeen_def Let_def)

text \<open>A timer whose id is not in the list leaves no trace in a pass.\<close>

lemma detector_absent:
  "k \<notin> id' ` set tms \<Longrightarrow>
   snd (detector tms seen) k = seen k \<and>
   filter (\<lambda>n. timerOf n = k) (fst (detector tms seen)) = []"
proof (induction tms arbitrary: seen)
  case Nil
  then show ?case by simp
next
  case (Cons a tms)
  then have a: "id' a \<noteq> k" and r: "k \<notin> id' ` set tms" by auto
  show ?case
    unfolding detector_Cons_fst detector_Cons_snd
    using detectTimer_other [OF a, of seen] Cons.IH [OF r, of "snd (detectTimer a seen)"]
    by simp
qed

text \<open>
  With distinct ids, what a pass does for one timer of the list is what the body of the
  loop does for it on the \<open>lastSeen\<close> the pass started with.
\<close>

lemma detector_distinct:
  "distinct (map id' tms) \<Longrightarrow> tm \<in> set tms \<Longrightarrow>
   filter (\<lambda>n. timerOf n = id' tm) (fst (detector tms seen)) = fst (detectTimer tm seen) \<and>
   snd (detector tms seen) (id' tm) = snd (detectTimer tm seen) (id' tm)"
proof (induction tms arbitrary: seen)
  case Nil
  then show ?case by simp
next
  case (Cons a tms)
  show ?case
  proof (cases "tm = a")
    case True
    from Cons.prems have "id' a \<notin> id' ` set tms" by simp
    from detector_absent [OF this, of "snd (detectTimer a seen)"] True show ?thesis
      unfolding detector_Cons_fst detector_Cons_snd
      by (simp add: detectTimer_own)
  next
    case False
    with Cons.prems have mem: "tm \<in> set tms" and d: "distinct (map id' tms)"
      and ne: "id' a \<noteq> id' tm" by auto
    from detectTimer_other [OF ne, of seen]
    have same: "snd (detectTimer a seen) (id' tm) = seen (id' tm)"
      and none: "filter (\<lambda>n. timerOf n = id' tm) (fst (detectTimer a seen)) = []" by simp_all
    from detectTimer_cong [where seen = "snd (detectTimer a seen)" and tm = tm and other = seen, OF same]
    have c: "fst (detectTimer tm (snd (detectTimer a seen))) = fst (detectTimer tm seen)"
      "snd (detectTimer tm (snd (detectTimer a seen))) (id' tm) =
       snd (detectTimer tm seen) (id' tm)" by simp_all
    from Cons.IH [OF d mem, of "snd (detectTimer a seen)"] none c show ?thesis
      unfolding detector_Cons_fst detector_Cons_snd by simp
  qed
qed

lemma tick_ids: "map id' (tick tms) = map id' tms"
  by (simp add: tick_def tickTimer_def Let_def)

lemma tick_finished_mem: "tm \<in> set tms \<Longrightarrow> status tm = FINISHED \<Longrightarrow> tm \<in> set (tick tms)"
proof -
  assume a: "tm \<in> set tms" and b: "status tm = FINISHED"
  then have "tickTimer tm = tm" by (simp add: tickTimer_def)
  with a show ?thesis unfolding tick_def by (metis image_eqI set_map)
qed

lemma passes_Suc:
  "passes (Suc n) tms seen = fst (detector tms seen) @ passes n (tick tms) (snd (detector tms seen))"
  by (simp add: case_prod_beta)

subsection \<open>The end of a timer\<close>

text \<open>
  Where the announcement of the end works as intended: the ids of the list are distinct
  and the id of the timer is not \<open>__proto__\<close>. A FINISHED timer with the sentinel recorded
  is never announced again, and one without the sentinel is announced exactly once, in the
  first pass, over any number of rounds.
\<close>

lemma passes_announced:
  "distinct (map id' tms) \<Longrightarrow> tm \<in> set tms \<Longrightarrow> status tm = FINISHED \<Longrightarrow>
   id' tm \<noteq> ''__proto__'' \<Longrightarrow> seen (id' tm) = Some (- 1) \<Longrightarrow>
   filter (\<lambda>k. timerOf k = id' tm) (passes n tms seen) = []"
proof (induction n arbitrary: tms seen)
  case 0
  from detector_distinct [OF "0.prems"(1,2), of seen] "0.prems"(3,4,5) show ?case
    by (simp add: detectTimer_def readSeen_def)
next
  case (Suc n)
  from detector_distinct [OF Suc.prems(1,2), of seen] Suc.prems(3,4,5)
  have now: "filter (\<lambda>k. timerOf k = id' tm) (fst (detector tms seen)) = []"
    and kept: "snd (detector tms seen) (id' tm) = Some (- 1)"
    by (simp_all add: detectTimer_def readSeen_def)
  have d: "distinct (map id' (tick tms))" using Suc.prems(1) by (simp add: tick_ids)
  have m: "tm \<in> set (tick tms)" using Suc.prems(2,3) by (rule tick_finished_mem)
  from Suc.IH [of "tick tms" "snd (detector tms seen)", OF d m Suc.prems(3,4) kept] now
  show ?case
    by (simp add: passes_Suc del: passes.simps)
qed

lemma passes_finished:
  assumes d: "distinct (map id' tms)" and m: "tm \<in> set tms" and f: "status tm = FINISHED"
    and p: "id' tm \<noteq> ''__proto__''" and s: "seen (id' tm) \<noteq> Some (- 1)"
  shows "filter (\<lambda>k. timerOf k = id' tm) (fst (detector tms seen)) = [Finished (id' tm)]"
    and "snd (detector tms seen) (id' tm) = Some (- 1)"
    and "filter (\<lambda>k. timerOf k = id' tm) (passes n tms seen) = [Finished (id' tm)]"
proof -
  from detector_distinct [OF d m, of seen] f p s
  show first: "filter (\<lambda>k. timerOf k = id' tm) (fst (detector tms seen)) = [Finished (id' tm)]"
    and rec: "snd (detector tms seen) (id' tm) = Some (- 1)"
    by (simp_all add: detectTimer_def readSeen_def writeSeen_def)
  show "filter (\<lambda>k. timerOf k = id' tm) (passes n tms seen) = [Finished (id' tm)]"
  proof (cases n)
    case 0
    with first show ?thesis by simp
  next
    case (Suc k)
    have d': "distinct (map id' (tick tms))" using d by (simp add: tick_ids)
    have m': "tm \<in> set (tick tms)" using m f by (rule tick_finished_mem)
    from passes_announced [where tms = "tick tms" and tm = tm and seen = "snd (detector tms seen)"
        and n = k, OF d' m' f p rec] first Suc show ?thesis
      by (simp add: passes_Suc del: passes.simps)
  qed
qed

text \<open>
  C4. The code does not announce every end exactly once. \<open>lastSeen\<close> is a plain object,
  and for a timer with the id \<open>__proto__\<close>, which the loader restores from a stored entry
  with that id, the write of the sentinel stores nothing: the FINISHED timer is announced
  again in every pass, three times in a pass and two rounds.
  And the sentinel -1 is also the ceiling of a \<open>remainingSec\<close> in the interval from -2 to
  -1, which the loader restores unclamped: a RUNNING timer restored with
  \<open>remainingSec = -1\<close> is recorded with -1 by the first pass, becomes FINISHED at the next
  tick, and is never announced.
\<close>

theorem finished_announcement_fails:
  "map boardTimer (loadTimers freshExample (Some [Some protoFinishedEntry])) =
     [Some protoFinished] \<and>
   map boardTimer (loadTimers freshExample (Some [Some negativeRunningEntry])) =
     [Some negativeRunning] \<and>
   passes 2 [protoFinished] (\<lambda>k. None) =
     [Finished ''__proto__'', Finished ''__proto__'', Finished ''__proto__''] \<and>
   snd (detector [protoFinished] (\<lambda>k. None)) ''__proto__'' = None \<and>
   map status (tick [negativeRunning]) = [FINISHED] \<and>
   snd (detector [negativeRunning] (\<lambda>k. None)) ''t4'' = Some (- 1) \<and>
   passes 3 [negativeRunning] (\<lambda>k. None) = []"
  by (simp add: protoFinished_def negativeRunning_def detectTimer_def readSeen_def writeSeen_def
      Math_ceil_def tick_def tickTimer_def tickRateMs_def Let_def numeral_2_eq_2 numeral_3_eq_3
      loadTimers_def normalizeTimer_def boardTimer_def protoFinishedEntry_def
      negativeRunningEntry_def emptyEntry_def orElse_def Math_min_def)

subsection \<open>The thresholds\<close>

lemma detectTimer_threshold:
  "status tm \<noteq> FINISHED \<Longrightarrow>
   fst (detectTimer tm seen) =
     (if Math_ceil (remainingSec tm) \<in> set (announceAt tm) \<and>
         readSeen seen (id' tm) \<noteq> Some (Math_ceil (remainingSec tm))
      then [Threshold (id' tm) (Math_ceil (remainingSec tm))] else []) \<and>
   snd (detectTimer tm seen) = writeSeen seen (id' tm) (Math_ceil (remainingSec tm))"
  by (simp add: detectTimer_def Let_def)

text \<open>
  Where the thresholds work as intended: the ids of the list are distinct and the id of the
  timer is not \<open>__proto__\<close>. The pass emits the Threshold notification exactly if the
  ceiling of \<open>remainingSec\<close> is among \<open>announceAt\<close> and differs from the recorded value,
  and records the ceiling in both cases.
\<close>

lemma threshold_other_ids:
  assumes d: "distinct (map id' tms)" and m: "tm \<in> set tms" and f: "status tm \<noteq> FINISHED"
    and p: "id' tm \<noteq> ''__proto__''"
  shows "filter (\<lambda>k. timerOf k = id' tm) (fst (detector tms seen)) =
        (if Math_ceil (remainingSec tm) \<in> set (announceAt tm) \<and>
            seen (id' tm) \<noteq> Some (Math_ceil (remainingSec tm))
         then [Threshold (id' tm) (Math_ceil (remainingSec tm))] else [])"
    and "snd (detector tms seen) (id' tm) = Some (Math_ceil (remainingSec tm))"
  using detector_distinct [OF d m, of seen] detectTimer_threshold [OF f, of seen] p
  by (simp_all add: readSeen_def writeSeen_def)

text \<open>
  C5. The code does not record the last-seen value of every timer. For a timer with the id
  \<open>__proto__\<close>, which the loader restores from a stored entry with that id, the write to
  the plain object \<open>lastSeen\<close> stores nothing, so a PAUSED
  timer that stays at 300 seconds, with 300 among its thresholds, is announced again in
  every pass: three times in a pass and two rounds.
\<close>

theorem threshold_refires:
  "map boardTimer (loadTimers freshExample (Some [Some protoPausedEntry])) =
     [Some protoPaused] \<and>
   passes 2 [protoPaused] (\<lambda>k. None) =
     [Threshold ''__proto__'' 300, Threshold ''__proto__'' 300, Threshold ''__proto__'' 300] \<and>
   snd (detector [protoPaused] (\<lambda>k. None)) ''__proto__'' = None \<and>
   tick [protoPaused] = [protoPaused]"
  by (simp add: protoPaused_def detectTimer_def readSeen_def writeSeen_def Math_ceil_def
      tick_def tickTimer_def Let_def numeral_2_eq_2
      loadTimers_def normalizeTimer_def boardTimer_def protoPausedEntry_def
      emptyEntry_def orElse_def Math_min_def)

text \<open>
  C10. Let the ids of the list be distinct. For a timer of the list that has no recorded
  value in \<open>lastSeen\<close> (one just added or just loaded) and is not FINISHED, if the ceiling
  of its \<open>remainingSec\<close> is among its \<open>announceAt\<close>, the first detector pass emits the
  Threshold notification for it, although the timer never came down to the threshold.
\<close>

theorem threshold_fires_on_first_sight:
  "distinct (map id' tms) \<and> tm \<in> set tms \<and> seen (id' tm) = None \<and> status tm \<noteq> FINISHED \<and>
   Math_ceil (remainingSec tm) \<in> set (announceAt tm) \<longrightarrow>
     filter (\<lambda>k. timerOf k = id' tm) (fst (detector tms seen)) =
       [Threshold (id' tm) (Math_ceil (remainingSec tm))]"
proof
  assume a: "distinct (map id' tms) \<and> tm \<in> set tms \<and> seen (id' tm) = None \<and>
    status tm \<noteq> FINISHED \<and> Math_ceil (remainingSec tm) \<in> set (announceAt tm)"
  then have d: "distinct (map id' tms)" and m: "tm \<in> set tms" and f: "status tm \<noteq> FINISHED"
    by simp_all
  from detector_distinct [OF d m, of seen] detectTimer_threshold [OF f, of seen] a
  show "filter (\<lambda>k. timerOf k = id' tm) (fst (detector tms seen)) =
       [Threshold (id' tm) (Math_ceil (remainingSec tm))]"
    by (simp add: readSeen_def)
qed

theorem threshold_fires_on_first_sight_witness:
  "filter (\<lambda>k. timerOf k = ''t9'')
     (fst (detector
        (addTimer ''t9'' (Some \<lparr>pr_game = Some ''Riftbound'', pr_icon = None, pr_minutes = Some 5\<rparr>)
           [thresholdTimer])
        (\<lambda>k. None))) = [Threshold ''t9'' 300]"
proof -
  let ?tm = "\<lparr>id' = ''t9'', game = ''Riftbound'', icon = None, durationSec = 300,
     remainingSec = 300, status = PAUSED, announceAt = [300, 120], pinned = Some False\<rparr>"
  have added: "addTimer ''t9''
      (Some \<lparr>pr_game = Some ''Riftbound'', pr_icon = None, pr_minutes = Some 5\<rparr>) [thresholdTimer] =
    [thresholdTimer, ?tm]"
    by (simp add: addTimer_def)
  show ?thesis
    unfolding added
    using threshold_fires_on_first_sight [of "[thresholdTimer, ?tm]" ?tm "\<lambda>k. None"]
    by (simp add: thresholdTimer_def Math_ceil_def)
qed

section \<open>Restoring the timers\<close>

lemma loadTimers_entries:
  "those parsed = Some ts \<Longrightarrow>
   loadTimers fresh (Some parsed) = map (\<lambda>(i, t). normalizeTimer fresh t i) (enumerate 0 ts)"
  by (simp add: loadTimers_def)

lemma loadTimers_nth:
  "those parsed = Some ts \<Longrightarrow> i < length ts \<Longrightarrow>
   loadTimers fresh (Some parsed) ! i = normalizeTimer fresh (ts ! i) i"
  by (simp add: loadTimers_entries nth_enumerate_eq)

lemma loadTimers_mem:
  "tm \<in> set (loadTimers fresh raw) \<Longrightarrow> \<exists>t i. tm = normalizeTimer fresh t i"
  by (auto simp: loadTimers_def split: option.splits)

text \<open>
  What the normalization does achieve: when the restored \<open>durationSec\<close> is a number, so
  is the restored \<open>remainingSec\<close>, and it is at most \<open>durationSec\<close>; it is also at least 0
  when \<open>durationSec\<close> is, unless the stored \<open>remainingSec\<close> is a negative number.
\<close>

lemma normalizeTimer_capped:
  "durationSec (normalizeTimer fresh t i) = Num d \<Longrightarrow>
   \<exists>r. remainingSec (normalizeTimer fresh t i) = Num r \<and> r \<le> d"
  by (auto simp: normalizeTimer_def Let_def Math_min_def split: option.splits)

lemma normalizeTimer_withinRange:
  "durationSec (normalizeTimer fresh t i) = Num d \<Longrightarrow> 0 \<le> d \<Longrightarrow>
   (case s_remainingSec t of Some r \<Rightarrow> 0 \<le> r | None \<Rightarrow> True) \<Longrightarrow>
   withinRange (normalizeTimer fresh t i)"
  by (auto simp: normalizeTimer_def Let_def Math_min_def withinRange_def split: option.splits)

text \<open>
  C6. The normalization does not clamp \<open>remainingSec\<close> into the interval from 0 to
  \<open>durationSec\<close>: it takes the minimum with \<open>durationSec\<close> and applies no lower bound,
  where the tick and the \<open>-1 min\<close> button take the maximum with 0. A stored entry with
  \<open>durationSec = 100\<close> and \<open>remainingSec = -5\<close> is restored with \<open>remainingSec = -5\<close>.
\<close>

theorem load_keeps_negative_remaining:
  "map durationSec (loadTimers freshExample
      (Some [Some (emptyEntry\<lparr>s_durationSec := Some 100, s_remainingSec := Some (- 5)\<rparr>)])) =
     [Num 100] \<and>
   map remainingSec (loadTimers freshExample
      (Some [Some (emptyEntry\<lparr>s_durationSec := Some 100, s_remainingSec := Some (- 5)\<rparr>)])) =
     [Num (- 5)] \<and>
   \<not> withinRange (loadTimers freshExample
      (Some [Some (emptyEntry\<lparr>s_durationSec := Some 100, s_remainingSec := Some (- 5)\<rparr>)]) ! 0)"
  by (simp add: loadTimers_def normalizeTimer_def emptyEntry_def withinRange_def Math_min_def
      Let_def)

text \<open>
  C7, as stated, fails for the duration: an entry without \<open>durationSec\<close> that has the
  legacy field \<open>minutes = 30\<close> is restored with \<open>durationSec = 1800\<close>, not 3000.
\<close>

theorem legacy_minutes_counterexample:
  "s_durationSec (emptyEntry\<lparr>s_minutes := Some (MinutesNumber 30)\<rparr>) = None \<and>
   map durationSec
     (loadTimers freshExample (Some [Some (emptyEntry\<lparr>s_minutes := Some (MinutesNumber 30)\<rparr>)])) =
     [Num 1800]"
  by (simp add: loadTimers_def normalizeTimer_def emptyEntry_def minutesOr3000_def Math_max_def
      Math_min_def Let_def)

text \<open>
  C7, amended. For every entry of the loaded array: an entry without a \<open>status\<close> is
  restored as PAUSED, and an entry without an \<open>announceAt\<close> array gets \<open>[300, 120]\<close>. An
  entry whose \<open>durationSec\<close> is missing or not a number gets 3000 seconds when its legacy
  field \<open>minutes\<close> is missing or 0, and the larger of 60 and \<open>minutes * 60\<close> seconds when
  \<open>minutes\<close> is another number.
\<close>

theorem normalized_defaults:
  "(those parsed = Some ts \<and> i < length ts \<and> s_status (ts ! i) = None \<longrightarrow>
      status (loadTimers fresh (Some parsed) ! i) = PAUSED) \<and>
   (those parsed = Some ts \<and> i < length ts \<and> s_announceAt (ts ! i) = None \<longrightarrow>
      announceAt (loadTimers fresh (Some parsed) ! i) = [300, 120]) \<and>
   (those parsed = Some ts \<and> i < length ts \<and> s_durationSec (ts ! i) = None \<and>
    (s_minutes (ts ! i) = None \<or> s_minutes (ts ! i) = Some (MinutesNumber 0)) \<longrightarrow>
      durationSec (loadTimers fresh (Some parsed) ! i) = Num 3000) \<and>
   (those parsed = Some ts \<and> i < length ts \<and> s_durationSec (ts ! i) = None \<and>
    s_minutes (ts ! i) = Some (MinutesNumber m) \<and> m \<noteq> 0 \<longrightarrow>
      durationSec (loadTimers fresh (Some parsed) ! i) = Num (max 60 (m * 60)))"
proof (intro conjI impI)
  assume "those parsed = Some ts \<and> i < length ts \<and> s_status (ts ! i) = None"
  then show "status (loadTimers fresh (Some parsed) ! i) = PAUSED"
    by (simp add: loadTimers_nth normalizeTimer_def Let_def)
next
  assume "those parsed = Some ts \<and> i < length ts \<and> s_announceAt (ts ! i) = None"
  then show "announceAt (loadTimers fresh (Some parsed) ! i) = [300, 120]"
    by (simp add: loadTimers_nth normalizeTimer_def Let_def)
next
  assume "those parsed = Some ts \<and> i < length ts \<and> s_durationSec (ts ! i) = None \<and>
    (s_minutes (ts ! i) = None \<or> s_minutes (ts ! i) = Some (MinutesNumber 0))"
  then show "durationSec (loadTimers fresh (Some parsed) ! i) = Num 3000"
    by (auto simp: loadTimers_nth normalizeTimer_def minutesOr3000_def Math_max_def Let_def)
next
  assume "those parsed = Some ts \<and> i < length ts \<and> s_durationSec (ts ! i) = None \<and>
    s_minutes (ts ! i) = Some (MinutesNumber m) \<and> m \<noteq> 0"
  then show "durationSec (loadTimers fresh (Some parsed) ! i) = Num (max 60 (m * 60))"
    by (simp add: loadTimers_nth normalizeTimer_def minutesOr3000_def Math_max_def Let_def)
qed

theorem normalized_defaults_witness:
  "status (loadTimers freshExample
     (Some [Some emptyEntry, Some (emptyEntry\<lparr>s_minutes := Some (MinutesNumber 45)\<rparr>)]) ! 0) =
     PAUSED \<and>
   announceAt (loadTimers freshExample
     (Some [Some emptyEntry, Some (emptyEntry\<lparr>s_minutes := Some (MinutesNumber 45)\<rparr>)]) ! 0) =
     [300, 120] \<and>
   durationSec (loadTimers freshExample
     (Some [Some emptyEntry, Some (emptyEntry\<lparr>s_minutes := Some (MinutesNumber 45)\<rparr>)]) ! 0) =
     Num 3000 \<and>
   durationSec (loadTimers freshExample
     (Some [Some emptyEntry, Some (emptyEntry\<lparr>s_minutes := Some (MinutesNumber 45)\<rparr>)]) ! 1) =
     Num 2700"
proof -
  let ?p = "[Some emptyEntry, Some (emptyEntry\<lparr>s_minutes := Some (MinutesNumber 45)\<rparr>)]"
  let ?t = "[emptyEntry, emptyEntry\<lparr>s_minutes := Some (MinutesNumber 45)\<rparr>]"
  have p: "those ?p = Some ?t" by simp
  have a: "status (loadTimers freshExample (Some ?p) ! 0) = PAUSED"
    using normalized_defaults [of ?p ?t 0 freshExample 45, THEN conjunct1] p
    by (simp add: emptyEntry_def)
  have b: "announceAt (loadTimers freshExample (Some ?p) ! 0) = [300, 120]"
    using normalized_defaults [of ?p ?t 0 freshExample 45, THEN conjunct2, THEN conjunct1] p
    by (simp add: emptyEntry_def)
  have c: "durationSec (loadTimers freshExample (Some ?p) ! 0) = Num 3000"
    using normalized_defaults [of ?p ?t 0 freshExample 45, THEN conjunct2, THEN conjunct2,
        THEN conjunct1] p
    by (simp add: emptyEntry_def)
  have d: "durationSec (loadTimers freshExample (Some ?p) ! 1) = Num 2700"
    using normalized_defaults [of ?p ?t 1 freshExample 45, THEN conjunct2, THEN conjunct2,
        THEN conjunct2] p
    by (simp add: emptyEntry_def)
  from a b c d show ?thesis by simp
qed

subsection \<open>Normalizing twice\<close>

lemma those_map_Some: "those (map (\<lambda>x. Some (f x)) xs) = Some (map f xs)"
  by (induction xs) simp_all

lemma defaultIcon_nonempty: "defaultIcon \<noteq> []"
  by (simp add: defaultIcon_def)

lemma orElse_nonempty: "d \<noteq> [] \<Longrightarrow> orElse v d \<noteq> []"
  by (simp add: orElse_def split: option.splits)

lemma orElse_Some: "s \<noteq> [] \<Longrightarrow> orElse (Some s) d = s"
  by (simp add: orElse_def)

text \<open>
  Normalizing the stored form of a normalized timer gives the timer back, if its
  \<open>durationSec\<close> is a number.
\<close>

lemma normalizeTimer_stored:
  assumes "fresh i \<noteq> []" and num: "durationSec (normalizeTimer fresh t i) = Num d"
  shows "normalizeTimer other (stored (normalizeTimer fresh t i)) j = normalizeTimer fresh t i"
proof -
  let ?n = "normalizeTimer fresh t i"
  let ?m = "normalizeTimer other (stored ?n) j"
  have ident: "id' ?n \<noteq> []" using assms by (simp add: normalizeTimer_def Let_def orElse_nonempty)
  have gm: "game ?n \<noteq> []" by (simp add: normalizeTimer_def Let_def orElse_nonempty)
  obtain ic where ic: "icon ?n = Some ic" "ic \<noteq> []"
    by (simp add: normalizeTimer_def Let_def orElse_nonempty defaultIcon_nonempty)
  obtain b where pn: "pinned ?n = Some b" by (simp add: normalizeTimer_def Let_def)
  from normalizeTimer_capped [OF num]
  obtain r where r: "remainingSec ?n = Num r" "r \<le> d" by blast
  have f1: "id' ?m = id' ?n"
    by (simp add: normalizeTimer_def [of other] stored_def Let_def orElse_Some ident)
  have f2: "game ?m = game ?n"
    by (simp add: normalizeTimer_def [of other] stored_def Let_def orElse_Some gm)
  have f3: "icon ?m = icon ?n"
    by (simp add: normalizeTimer_def [of other] stored_def Let_def orElse_Some ic)
  have f4: "durationSec ?m = durationSec ?n"
    by (simp add: normalizeTimer_def [of other] stored_def Let_def jsonNumber_def num)
  have f5: "remainingSec ?m = remainingSec ?n"
    using r(2)
    by (simp add: normalizeTimer_def [of other] stored_def Let_def jsonNumber_def num r(1)
        Math_min_def)
  have f6: "status ?m = status ?n"
    by (cases "status ?n")
      (simp_all add: normalizeTimer_def [of other] stored_def Let_def statusName_def)
  have f7: "announceAt ?m = announceAt ?n"
    by (simp add: normalizeTimer_def [of other] stored_def Let_def)
  have f8: "pinned ?m = pinned ?n"
    by (simp add: normalizeTimer_def [of other] stored_def Let_def pn)
  show ?thesis
    by (rule GameTimer.equality) (simp_all add: f1 f2 f3 f4 f5 f6 f7 f8)
qed

lemma map_enumerate_fixed:
  "(\<And>x j. x \<in> set xs \<Longrightarrow> h (k x) j = x) \<Longrightarrow>
   map (\<lambda>(j, s). h s j) (enumerate n (map k xs)) = xs"
  by (induction xs arbitrary: n) simp_all

text \<open>
  Where the second load gives the first one back: the identifiers made up by the first load
  are not empty, and no restored \<open>durationSec\<close> is NaN.
\<close>

lemma reload_same_numbers:
  assumes f: "\<And>i. fresh i \<noteq> []"
    and num: "\<And>tm. tm \<in> set (loadTimers fresh raw) \<Longrightarrow> durationSec tm \<noteq> NaN"
  shows "loadTimers other (saved (loadTimers fresh raw)) = loadTimers fresh raw"
proof -
  let ?l = "loadTimers fresh raw"
  have fixed: "normalizeTimer other (stored x) j = x" if "x \<in> set ?l" for x j
  proof -
    from that obtain t i where x: "x = normalizeTimer fresh t i" using loadTimers_mem by blast
    from num [OF that] obtain d where "durationSec x = Num d" by (cases "durationSec x") simp_all
    with x f [of i] show ?thesis by (simp add: normalizeTimer_stored)
  qed
  have "loadTimers other (saved ?l) =
      map (\<lambda>(j, s). normalizeTimer other s j) (enumerate 0 (map stored ?l))"
    by (simp add: saved_def loadTimers_def those_map_Some)
  also have "\<dots> = ?l" using fixed by (rule map_enumerate_fixed)
  finally show ?thesis .
qed


end
